theory Spec2Isabelle
  imports Complex_Main "HOL-Library.Multiset"
begin

section \<open>JavaScript numbers\<close>

text \<open>
  A JavaScript Number is an IEEE-754 double.  The three special values are constructors
  of their own; a finite double is represented by the rational it denotes (the sign of
  zero is not kept: none of the operations below distinguishes the two zeros).

  Rounding to the nearest double is not part of the program.  It is a parameter of every
  function whose source does floating-point arithmetic: \<open>rd x\<close> is the Number that the
  exact result \<open>x\<close> rounds to (an infinity on overflow).
\<close>

datatype jsnum = NaN | PInf | NInf | Fin rat

type_synonym rounding = "rat \<Rightarrow> jsnum"

text \<open>Unary minus.\<close>

fun js_neg :: "jsnum \<Rightarrow> jsnum" where
  "js_neg NaN = NaN"
| "js_neg PInf = NInf"
| "js_neg NInf = PInf"
| "js_neg (Fin x) = Fin (- x)"

text \<open>The binary \<open>-\<close> operator on Numbers.\<close>

fun js_sub :: "rounding \<Rightarrow> jsnum \<Rightarrow> jsnum \<Rightarrow> jsnum" where
  "js_sub rd NaN b = NaN"
| "js_sub rd a NaN = NaN"
| "js_sub rd PInf PInf = NaN"
| "js_sub rd NInf NInf = NaN"
| "js_sub rd PInf b = PInf"
| "js_sub rd NInf b = NInf"
| "js_sub rd (Fin x) PInf = NInf"
| "js_sub rd (Fin x) NInf = PInf"
| "js_sub rd (Fin x) (Fin y) = rd (x - y)"

text \<open>\<open>Math.abs\<close>.\<close>

fun Math_abs :: "jsnum \<Rightarrow> jsnum" where
  "Math_abs NaN = NaN"
| "Math_abs PInf = PInf"
| "Math_abs NInf = PInf"
| "Math_abs (Fin x) = Fin \<bar>x\<bar>"

text \<open>The \<open><\<close> operator on Numbers: false as soon as one side is NaN.\<close>

fun js_lt :: "jsnum \<Rightarrow> jsnum \<Rightarrow> bool" where
  "js_lt NaN b = False"
| "js_lt a NaN = False"
| "js_lt a NInf = False"
| "js_lt PInf b = False"
| "js_lt NInf b = True"
| "js_lt (Fin x) PInf = True"
| "js_lt (Fin x) (Fin y) = (x < y)"


section \<open>parseFloat\<close>

text \<open>
  \<open>parseFloat\<close> as ECMAScript defines it: leading white space is dropped, then the longest
  prefix that is a \<open>StrDecimalLiteral\<close> is read; with no such prefix the result is NaN.
  Strings are sequences of code units below 256, so the white space of the model is the
  white space and line terminators among those.
\<close>

definition is_white_space :: "char \<Rightarrow> bool" where
  "is_white_space c =
     (c = CHR 0x09 \<or> c = CHR 0x0A \<or> c = CHR 0x0B \<or> c = CHR 0x0C \<or> c = CHR 0x0D
      \<or> c = CHR 0x20 \<or> c = CHR 0xA0)"

definition is_digit :: "char \<Rightarrow> bool" where
  "is_digit c = (48 \<le> (of_char c :: nat) \<and> (of_char c :: nat) \<le> 57)"

definition digit_value :: "char \<Rightarrow> nat" where
  "digit_value c = of_char c - 48"

text \<open>The value of a run of decimal digits.\<close>

definition digits_value :: "string \<Rightarrow> nat" where
  "digits_value ds = foldl (\<lambda>a c. 10 * a + digit_value c) 0 ds"

text \<open>\<open>DecimalDigits\<close> at the head of the string, if there is at least one digit.\<close>

definition decimal_digits :: "string \<Rightarrow> int option" where
  "decimal_digits s =
     (let ds = takeWhile is_digit s
      in if ds = [] then None else Some (int (digits_value ds)))"

text \<open>\<open>SignedInteger\<close>: digits with an optional sign.\<close>

fun signed_integer :: "string \<Rightarrow> int option" where
  "signed_integer [] = None"
| "signed_integer (c # t) =
     (if c = CHR ''+'' then decimal_digits t
      else if c = CHR ''-'' then map_option uminus (decimal_digits t)
      else decimal_digits (c # t))"

text \<open>
  The exponent denoted by the longest \<open>ExponentPart\<close> at the head of the string; 0 when
  there is none (an \<open>e\<close> with no digits after it is not part of the literal).
\<close>

fun exponent_part :: "string \<Rightarrow> int" where
  "exponent_part [] = 0"
| "exponent_part (c # t) =
     (if c = CHR ''e'' \<or> c = CHR ''E''
      then (case signed_integer t of None \<Rightarrow> 0 | Some e \<Rightarrow> e)
      else 0)"

definition scale10 :: "nat \<Rightarrow> int \<Rightarrow> rat" where
  "scale10 m e = (if 0 \<le> e then of_nat m * 10 ^ nat e else of_nat m / 10 ^ nat (- e))"

text \<open>
  The mathematical value of the longest prefix that is a \<open>StrUnsignedDecimalLiteral\<close>
  other than \<open>Infinity\<close>: digits, an optional dot with optional digits, an optional
  exponent; or a dot with digits and an optional exponent.  \<open>decimal_tail ip r\<close> reads
  what follows the leading digits \<open>ip\<close>.
\<close>

fun decimal_tail :: "string \<Rightarrow> string \<Rightarrow> rat option" where
  "decimal_tail ip [] = (if ip = [] then None else Some (scale10 (digits_value ip) 0))"
| "decimal_tail ip (c # t) =
     (if c = CHR ''.''
      then (let fp = takeWhile is_digit t
            in if ip = [] \<and> fp = [] then None
               else Some (scale10 (digits_value (ip @ fp))
                            (exponent_part (dropWhile is_digit t) - int (length fp))))
      else if ip = [] then None
      else Some (scale10 (digits_value ip) (exponent_part (c # t))))"

definition unsigned_decimal :: "string \<Rightarrow> rat option" where
  "unsigned_decimal s = decimal_tail (takeWhile is_digit s) (dropWhile is_digit s)"

definition unsigned_literal :: "rounding \<Rightarrow> string \<Rightarrow> jsnum" where
  "unsigned_literal rd s =
     (if take 8 s = ''Infinity'' then PInf
      else case unsigned_decimal s of None \<Rightarrow> NaN | Some v \<Rightarrow> rd v)"

definition parseFloat :: "rounding \<Rightarrow> string \<Rightarrow> jsnum" where
  "parseFloat rd s =
     (case dropWhile is_white_space s of
        [] \<Rightarrow> NaN
      | c # t \<Rightarrow>
          if c = CHR ''-'' then js_neg (unsigned_literal rd t)
          else if c = CHR ''+'' then unsigned_literal rd t
          else unsigned_literal rd (c # t))"

section \<open>Number to string\<close>





section \<open>Domain layer\<close>

datatype js_error = SyntaxError | TypeError | SecurityError | QuotaExceededError

text \<open>The four entries of \<open>OPERATIONS\<close>, in the order of the object literal.\<close>

datatype Operation = ADDITION | SUBTRACTION | MULTIPLICATION | DIVISION

text \<open>
  The \<open>fn\<close> of an operation, on integer operands.  \<open>a / b\<close> with \<open>b = 0\<close> is an infinity
  with the sign of \<open>a\<close>, and NaN for \<open>0 / 0\<close>.
\<close>

fun fn :: "rounding \<Rightarrow> Operation \<Rightarrow> int \<Rightarrow> int \<Rightarrow> jsnum" where
  "fn rd ADDITION a b = rd (of_int (a + b))"
| "fn rd SUBTRACTION a b = rd (of_int (a - b))"
| "fn rd MULTIPLICATION a b = rd (of_int (a * b))"
| "fn rd DIVISION a b =
     (if b = 0 then (if a = 0 then NaN else if 0 < a then PInf else NInf)
      else rd (of_int a / of_int b))"

record MathProblem =
  operand1 :: int
  operand2 :: int
  operation :: Operation
  answer :: jsnum

text \<open>
  The constructor.  The operation is what \<open>operations[i]\<close> gave: \<open>None\<close> is \<open>undefined\<close>,
  and reading \<open>operation.fn\<close> of it throws a TypeError.
\<close>

definition new_MathProblem ::
  "rounding \<Rightarrow> int \<Rightarrow> int \<Rightarrow> Operation option \<Rightarrow> js_error + MathProblem" where
  "new_MathProblem rd a b opn =
     (case opn of
        None \<Rightarrow> Inl TypeError
      | Some f \<Rightarrow> Inr \<lparr>operand1 = a, operand2 = b, operation = f, answer = fn rd f a b\<rparr>)"

text \<open>\<open>Math.abs(parseFloat(userAnswer) - this.answer) < 0.01\<close>\<close>

definition isCorrect :: "rounding \<Rightarrow> MathProblem \<Rightarrow> string \<Rightarrow> bool" where
  "isCorrect rd p userAnswer =
     js_lt (Math_abs (js_sub rd (parseFloat rd userAnswer) (answer p))) (rd (1 / 100))"

section \<open>Problem generator\<close>

text \<open>
  \<open>Math.random\<close> is the injected random source: the sequence of the values it returns,
  read at the number of draws made so far.  Its contract is a value in \<open>[0, 1)\<close>.  The
  products \<open>Math.random() * 9\<close> and \<open>Math.random() * operations.length\<close> are taken
  exactly, so that operands are integers.
\<close>

type_synonym random_source = "nat \<Rightarrow> rat"


text \<open>\<open>Object.values(OPERATIONS)\<close>\<close>

definition operations :: "Operation list" where
  "operations = [ADDITION, SUBTRACTION, MULTIPLICATION, DIVISION]"

text \<open>\<open>xs[i]\<close>: \<open>undefined\<close> (here \<open>None\<close>) outside the array.\<close>

definition index :: "'a list \<Rightarrow> int \<Rightarrow> 'a option" where
  "index xs i = (if 0 \<le> i \<and> i < int (length xs) then Some (xs ! nat i) else None)"

text \<open>The \<open>%\<close> operator on integers, for a divisor other than 0: the sign of the dividend.\<close>

definition js_rem :: "int \<Rightarrow> int \<Rightarrow> int" where
  "js_rem a b = sgn a * (\<bar>a\<bar> mod \<bar>b\<bar>)"

text \<open>\<open>Math.floor(Math.random() * 9) + 1\<close>, for the value \<open>r\<close> drawn.\<close>

definition random_operand :: "rat \<Rightarrow> int" where
  "random_operand r = \<lfloor>r * 9\<rfloor> + 1"

text \<open>\<open>operations[Math.floor(Math.random() * operations.length)]\<close>\<close>

definition random_operation :: "rat \<Rightarrow> Operation option" where
  "random_operation r = index operations \<lfloor>r * of_nat (length operations)\<rfloor>"

text \<open>
  The \<open>do ... while (true)\<close> loop of \<open>generate\<close>, from draw \<open>i\<close> on.  It has no bound on
  the number of attempts: not returning is the value \<open>None\<close>.  The result is the two
  operands and the operation at the \<open>break\<close>, and the number of draws made.
\<close>

partial_function (option) sample ::
  "random_source \<Rightarrow> nat \<Rightarrow> ((int \<times> int \<times> Operation option) \<times> nat) option" where
  "sample rnd i =
     (let operand1 = random_operand (rnd i);
          operand2 = random_operand (rnd (i + 1));
          operation = random_operation (rnd (i + 2))
      in if operation = Some DIVISION \<and> (operand2 = 0 \<or> js_rem operand1 operand2 \<noteq> 0)
         then sample rnd (i + 3)
         else if operation = Some SUBTRACTION \<and> operand1 < operand2
         then Some ((operand2, operand1, operation), i + 3)
         else Some ((operand1, operand2, operation), i + 3))"

text \<open>
  \<open>ProblemGenerator.generate\<close>: \<open>None\<close> when the loop never ends, \<open>Inl\<close> the error the
  constructor throws, otherwise the problem and the number of draws made.
\<close>

definition generate ::
  "rounding \<Rightarrow> random_source \<Rightarrow> nat \<Rightarrow> (js_error + MathProblem \<times> nat) option" where
  "generate rd rnd i =
     (case sample rnd i of
        None \<Rightarrow> None
      | Some ((a, b, opn), j) \<Rightarrow>
          Some (case new_MathProblem rd a b opn of
                  Inl e \<Rightarrow> Inl e
                | Inr p \<Rightarrow> Inr (p, j)))"

text \<open>
  The attempt that starts at draw \<open>i\<close> satisfies the constraints: its operation is not
  the division, or its second operand is not 0 and divides the first.
\<close>

definition satisfies_constraints :: "random_source \<Rightarrow> nat \<Rightarrow> bool" where
  "satisfies_constraints rnd i =
     (random_operation (rnd (i + 2)) \<noteq> Some DIVISION
      \<or> (random_operand (rnd (i + 1)) \<noteq> 0
          \<and> random_operand (rnd (i + 1)) dvd random_operand (rnd i)))"

section \<open>Score store\<close>

record ScoreRecord =
  name :: string
  score :: int
  date :: string

text \<open>
  A parsed JSON value: an array of score records (the only arrays the program writes),
  or any other value (null, a boolean, a number, a string, an object).
\<close>

datatype json = JArray "ScoreRecord list" | JOther

text \<open>
  A stored string, by what \<open>JSON.parse\<close> makes of it: the empty string (falsy for \<open>||\<close>),
  a text that is not JSON, or the serialization of a value.
\<close>

datatype stored_text = EmptyText | NotJson | JsonText json

text \<open>
  \<open>localStorage\<close>, at the key \<open>STORAGE_KEY\<close>: \<open>item = None\<close> is the \<open>null\<close> of an absent
  key.  Reading throws when the storage is not \<open>readable\<close> (access denied), writing when
  it is not \<open>writable\<close> (quota exceeded).
\<close>

record localStorage =
  readable :: bool
  writable :: bool
  item :: "stored_text option"

definition getItem :: "localStorage \<Rightarrow> js_error + stored_text option" where
  "getItem ls = (if readable ls then Inr (item ls) else Inl SecurityError)"

definition setItem :: "localStorage \<Rightarrow> stored_text \<Rightarrow> js_error + localStorage" where
  "setItem ls t =
     (if \<not> readable ls then Inl SecurityError
      else if \<not> writable ls then Inl QuotaExceededError
      else Inr (ls\<lparr>item := Some t\<rparr>))"

fun JSON_parse :: "stored_text \<Rightarrow> js_error + json" where
  "JSON_parse EmptyText = Inl SyntaxError"
| "JSON_parse NotJson = Inl SyntaxError"
| "JSON_parse (JsonText v) = Inr v"

definition JSON_stringify :: "json \<Rightarrow> stored_text" where
  "JSON_stringify v = JsonText v"

text \<open>\<open>x || '[]'\<close>: \<open>null\<close> and the empty string are falsy.\<close>

fun or_empty_array :: "stored_text option \<Rightarrow> stored_text" where
  "or_empty_array None = JsonText (JArray [])"
| "or_empty_array (Some EmptyText) = JsonText (JArray [])"
| "or_empty_array (Some t) = t"

text \<open>\<open>JSON.parse(localStorage.getItem(this.STORAGE_KEY) || '[]')\<close>\<close>

definition read_scores :: "localStorage \<Rightarrow> js_error + json" where
  "read_scores ls =
     (case getItem ls of
        Inl e \<Rightarrow> Inl e
      | Inr x \<Rightarrow> JSON_parse (or_empty_array x))"

text \<open>
  \<open>Array.prototype.sort\<close> with a comparator.  ECMAScript requires the sort to be stable;
  inserting from the right, each element before the first one it does not come after,
  is such a sort.
\<close>

fun insert_sorted :: "('a \<Rightarrow> 'a \<Rightarrow> int) \<Rightarrow> 'a \<Rightarrow> 'a list \<Rightarrow> 'a list" where
  "insert_sorted cmp x [] = [x]"
| "insert_sorted cmp x (y # ys) =
     (if cmp x y \<le> 0 then x # y # ys else y # insert_sorted cmp x ys)"

definition Array_sort :: "('a \<Rightarrow> 'a \<Rightarrow> int) \<Rightarrow> 'a list \<Rightarrow> 'a list" where
  "Array_sort cmp xs = foldr (insert_sorted cmp) xs []"

text \<open>\<open>xs.slice(0, end)\<close>: a negative \<open>end\<close> counts from the end of the array.\<close>

definition Array_slice0 :: "'a list \<Rightarrow> int \<Rightarrow> 'a list" where
  "Array_slice0 xs e =
     (if e < 0 then take (nat (int (length xs) + e)) xs else take (nat e) xs)"

text \<open>
  \<open>scores.sort(...)\<close> and \<open>scores.push(...)\<close> on a parsed value: a value that is not an
  array has neither method, and the call throws a TypeError.
\<close>

fun method_sort :: "json \<Rightarrow> (ScoreRecord \<Rightarrow> ScoreRecord \<Rightarrow> int) \<Rightarrow> js_error + ScoreRecord list" where
  "method_sort (JArray xs) cmp = Inr (Array_sort cmp xs)"
| "method_sort JOther cmp = Inl TypeError"

fun method_push :: "json \<Rightarrow> ScoreRecord \<Rightarrow> js_error + json" where
  "method_push (JArray xs) r = Inr (JArray (xs @ [r]))"
| "method_push JOther r = Inl TypeError"

text \<open>\<open>ScoreManager.getTopScores\<close>: the \<open>catch\<close> turns every error into the empty array.\<close>

definition getTopScores :: "localStorage \<Rightarrow> int \<Rightarrow> ScoreRecord list" where
  "getTopScores ls limit =
     (case read_scores ls of
        Inl e \<Rightarrow> []
      | Inr scores \<Rightarrow>
          (case method_sort scores (\<lambda>a b. score b - score a) of
             Inl e \<Rightarrow> []
           | Inr sorted_scores \<Rightarrow> Array_slice0 sorted_scores limit))"

text \<open>
  \<open>ScoreManager.saveScore\<close>, with \<open>now\<close> the value of \<open>new Date().toISOString()\<close>.
  The result is the storage afterwards and the error handed to \<open>console.error\<close>, if any:
  one \<open>try\<close> block holds the read, the push and the write.
\<close>

definition saveScore ::
  "string \<Rightarrow> localStorage \<Rightarrow> string \<Rightarrow> int \<Rightarrow> localStorage \<times> js_error option" where
  "saveScore now ls playerName sc =
     (case read_scores ls of
        Inl e \<Rightarrow> (ls, Some e)
      | Inr scores \<Rightarrow>
          (case method_push scores \<lparr>name = playerName, score = sc, date = now\<rparr> of
             Inl e \<Rightarrow> (ls, Some e)
           | Inr scores' \<Rightarrow>
               (case setItem ls (JSON_stringify scores') of
                  Inl e \<Rightarrow> (ls, Some e)
                | Inr ls' \<Rightarrow> (ls', None))))"

section \<open>State management\<close>

datatype GAME_STATES = MENU | PLAYING | GAME_OVER

record GameState =
  gameState :: GAME_STATES
  currentProblem :: "MathProblem option"
  userInput :: string
  score :: int
  timeRemaining :: int
  showSuccess :: bool
  topScores :: "ScoreRecord list"
  playerNameToSave :: "string option"

definition INITIAL_STATE :: GameState where
  "INITIAL_STATE =
     \<lparr>gameState = MENU, currentProblem = None, userInput = [], score = 0,
      timeRemaining = 30, showSuccess = False, topScores = [], playerNameToSave = None\<rparr>"

text \<open>
  The actions by their \<open>type\<close>, with the payload where the reducer reads one;
  \<open>UNKNOWN\<close> is an action of any other type.
\<close>

datatype action =
    START_GAME
  | UPDATE_INPUT string
  | CORRECT_ANSWER
  | HIDE_SUCCESS
  | TICK
  | SAVE_SCORE string
  | RETURN_TO_MENU
  | LOAD_SCORES
  | UNKNOWN

text \<open>What the reducer reads besides its arguments: the random source and the storage.\<close>

record world =
  source :: random_source
  drawn :: nat
  storage :: localStorage

text \<open>
  \<open>gameReducer\<close>.  \<open>None\<close> when \<open>generate\<close> does not return, \<open>Inl\<close> the error it throws,
  otherwise the next state, and the world with the draws counted.
\<close>

fun gameReducer ::
  "rounding \<Rightarrow> world \<Rightarrow> GameState \<Rightarrow> action \<Rightarrow> (js_error + GameState \<times> world) option" where
  "gameReducer rd w state START_GAME =
     (case generate rd (source w) (drawn w) of
        None \<Rightarrow> None
      | Some (Inl e) \<Rightarrow> Some (Inl e)
      | Some (Inr (p, j)) \<Rightarrow>
          Some (Inr (state\<lparr>gameState := PLAYING, currentProblem := Some p, score := 0,
                           timeRemaining := 30, userInput := [], showSuccess := False\<rparr>,
                     w\<lparr>drawn := j\<rparr>)))"
| "gameReducer rd w state (UPDATE_INPUT payload) =
     Some (Inr (state\<lparr>userInput := payload\<rparr>, w))"
| "gameReducer rd w state CORRECT_ANSWER =
     (case generate rd (source w) (drawn w) of
        None \<Rightarrow> None
      | Some (Inl e) \<Rightarrow> Some (Inl e)
      | Some (Inr (p, j)) \<Rightarrow>
          Some (Inr (state\<lparr>score := score state + 1, currentProblem := Some p,
                           userInput := [], showSuccess := True\<rparr>,
                     w\<lparr>drawn := j\<rparr>)))"
| "gameReducer rd w state HIDE_SUCCESS =
     Some (Inr (state\<lparr>showSuccess := False\<rparr>, w))"
| "gameReducer rd w state TICK =
     (let newTime = max 0 (timeRemaining state - 1)
      in Some (Inr (state\<lparr>timeRemaining := newTime,
                          gameState := (if newTime = 0 then GAME_OVER else gameState state)\<rparr>,
                    w)))"
| "gameReducer rd w state (SAVE_SCORE payload) =
     Some (Inr (state\<lparr>playerNameToSave := Some payload\<rparr>, w))"
| "gameReducer rd w state RETURN_TO_MENU =
     Some (Inr (INITIAL_STATE\<lparr>topScores := getTopScores (storage w) 5\<rparr>, w))"
| "gameReducer rd w state LOAD_SCORES =
     Some (Inr (state\<lparr>topScores := getTopScores (storage w) 5\<rparr>, w))"
| "gameReducer rd w state UNKNOWN = Some (Inr (state, w))"

text \<open>Dispatching a sequence of actions, each to the state the one before it left.\<close>

fun dispatch_all ::
  "rounding \<Rightarrow> world \<Rightarrow> GameState \<Rightarrow> action list \<Rightarrow> (js_error + GameState \<times> world) option" where
  "dispatch_all rd w state [] = Some (Inr (state, w))"
| "dispatch_all rd w state (a # as) =
     (case gameReducer rd w state a of
        None \<Rightarrow> None
      | Some (Inl e) \<Rightarrow> Some (Inl e)
      | Some (Inr (state', w')) \<Rightarrow> dispatch_all rd w' state' as)"

text \<open>The phase after \<open>n\<close> ticks of the timer.\<close>

definition phase_after_ticks ::
  "rounding \<Rightarrow> world \<Rightarrow> GameState \<Rightarrow> nat \<Rightarrow> GAME_STATES option" where
  "phase_after_ticks rd w state n =
     (case dispatch_all rd w state (replicate n TICK) of
        Some (Inr (state', w')) \<Rightarrow> Some (gameState state')
      | _ \<Rightarrow> None)"

section \<open>Concrete inputs\<close>

definition demo_storage :: localStorage where
  "demo_storage = \<lparr>readable = True, writable = True, item = None\<rparr>"

definition demo_source :: random_source where
  "demo_source = (\<lambda>n. 1 / 2)"

definition demo_world :: world where
  "demo_world = \<lparr>source = demo_source, drawn = 0, storage = demo_storage\<rparr>"



definition corrupted_storage :: localStorage where
  "corrupted_storage = \<lparr>readable = True, writable = True, item = Some NotJson\<rparr>"

text \<open>The problem \<open>3 + 4\<close>, as the constructor builds it.\<close>

definition three_plus_four :: MathProblem where
  "three_plus_four = \<lparr>operand1 = 3, operand2 = 4, operation = ADDITION, answer = Fin 7\<rparr>"




section \<open>The correctness check\<close>

lemma new_MathProblem_three_plus_four:
  "new_MathProblem Fin 3 4 (Some ADDITION) = Inr three_plus_four"
  by (simp add: new_MathProblem_def three_plus_four_def)

lemma parseFloat_not_a_number: "parseFloat rd ''not a number'' = NaN"
  by (simp add: parseFloat_def is_white_space_def unsigned_literal_def unsigned_decimal_def
        is_digit_def)

lemma js_lt_PInf: "\<not> js_lt PInf c"
  by (cases c) simp_all

lemma js_lt_abs_sub:
  "js_lt (Math_abs (js_sub rd a b)) c
   = (\<exists>x y d. a = Fin x \<and> b = Fin y \<and> rd (x - y) = Fin d \<and> js_lt (Fin \<bar>d\<bar>) c)"
proof (cases a)
  case (Fin x)
  note a = this
  show ?thesis
  proof (cases b)
    case (Fin y)
    show ?thesis
      by (cases "rd (x - y)") (simp_all add: a Fin js_lt_PInf)
  qed (simp_all add: a js_lt_PInf)
next
  case NaN
  then show ?thesis by simp
next
  case PInf
  then show ?thesis by (cases b) (simp_all add: js_lt_PInf)
next
  case NInf
  then show ?thesis by (cases b) (simp_all add: js_lt_PInf)
qed

text \<open>
  C6.  \<open>isCorrect\<close> returns a truth value for every problem and every string.  It is
  false when the string does not parse (\<open>parseFloat\<close> gives NaN), as for
  \<open>not a number\<close>.  It is true exactly when the parsed value and the answer are finite and
  the absolute value of their difference, as the subtraction rounds it, is less than
  the Number \<open>0.01\<close>.
\<close>

theorem isCorrect_by_tolerance:
  "(parseFloat rd rawInput = NaN \<longrightarrow> \<not> isCorrect rd p rawInput)
   \<and> isCorrect rd p rawInput
       = (\<exists>x a d. parseFloat rd rawInput = Fin x \<and> answer p = Fin a
            \<and> rd (x - a) = Fin d \<and> js_lt (Fin \<bar>d\<bar>) (rd (1 / 100)))
   \<and> \<not> isCorrect rd p ''not a number''"
  by (simp add: isCorrect_def js_lt_abs_sub parseFloat_not_a_number)

theorem isCorrect_by_tolerance_witness:
  "parseFloat Fin ''not a number'' = NaN
   \<and> \<not> isCorrect Fin three_plus_four ''not a number''
   \<and> isCorrect Fin three_plus_four ''7.009''
   \<and> \<not> isCorrect Fin three_plus_four ''7.5''"
  using isCorrect_by_tolerance [of Fin "''not a number''" three_plus_four]
  by (simp add: isCorrect_def three_plus_four_def parseFloat_def is_white_space_def
        unsigned_literal_def unsigned_decimal_def is_digit_def digits_value_def
        digit_value_def scale10_def)

subsection \<open>Text after the literal\<close>






















section \<open>The generator\<close>



lemma js_rem_zero_iff: "js_rem a b = 0 \<longleftrightarrow> b dvd a"
proof -
  have "js_rem a b = 0 \<longleftrightarrow> \<bar>a\<bar> mod \<bar>b\<bar> = 0"
    by (auto simp: js_rem_def sgn_if)
  also have "\<dots> \<longleftrightarrow> \<bar>b\<bar> dvd \<bar>a\<bar>"
    by (simp add: dvd_eq_mod_eq_0)
  finally show ?thesis by simp
qed



lemma sample_never:
  assumes "sample rnd i = Some y"
  shows "\<exists>k. satisfies_constraints rnd (i + 3 * k)"
  using assms
proof (induction rnd i y rule: sample.raw_induct [rotated 1, consumes 1])
  case (1 sample rnd i y)
  show ?case
  proof (cases "random_operation (rnd (i + 2)) = Some DIVISION
       \<and> (random_operand (rnd (i + 1)) = 0
           \<or> js_rem (random_operand (rnd i)) (random_operand (rnd (i + 1))) \<noteq> 0)")
    case True
    then have "sample rnd (i + 3) = Some y" using 1(2) by (simp add: Let_def)
    then obtain k where "satisfies_constraints rnd (i + 3 + 3 * k)" using 1(1) by blast
    then have "satisfies_constraints rnd (i + 3 * (Suc k))" by (simp add: add.assoc)
    then show ?thesis by blast
  next
    case False
    then have "satisfies_constraints rnd (i + 3 * 0)"
      by (auto simp: satisfies_constraints_def js_rem_zero_iff)
    then show ?thesis by blast
  qed
qed









text \<open>Without such an attempt the loop does not end.\<close>

lemma generate_diverges:
  assumes "\<And>k. \<not> satisfies_constraints rnd (i + 3 * k)"
  shows "generate rd rnd i = None"
proof (cases "sample rnd i")
  case None
  then show ?thesis by (simp add: generate_def)
next
  case (Some y)
  then show ?thesis using sample_never [of rnd i y] assms by blast
qed















section \<open>The reducer\<close>

lemma tick_at_zero:
  "timeRemaining s = 0 \<Longrightarrow> gameState s = GAME_OVER \<Longrightarrow>
   gameReducer rd w s TICK = Some (Inr (s, w))"
  by simp

lemma ticks_at_zero:
  "timeRemaining s = 0 \<Longrightarrow> gameState s = GAME_OVER \<Longrightarrow>
   dispatch_all rd w s (replicate n TICK) = Some (Inr (s, w))"
  by (induction n) (simp_all add: tick_at_zero del: gameReducer.simps)

lemma ticks_from_one:
  assumes "timeRemaining s = 1"
  shows "dispatch_all rd w s (replicate (Suc n) TICK)
         = Some (Inr (s\<lparr>timeRemaining := 0, gameState := GAME_OVER\<rparr>, w))"
proof -
  have "gameReducer rd w s TICK = Some (Inr (s\<lparr>timeRemaining := 0, gameState := GAME_OVER\<rparr>, w))"
    using assms by simp
  then show ?thesis
    using ticks_at_zero [of "s\<lparr>timeRemaining := 0, gameState := GAME_OVER\<rparr>" rd w n]
    by simp
qed



text \<open>
  C3.  In every state \<open>TICK\<close> sets \<open>timeRemaining\<close> to \<open>max 0 (timeRemaining - 1)\<close>, which
  is never negative, and a new time of 0 makes the phase \<open>GAME_OVER\<close>.  From a time of 1
  in the phase Playing, the phase after \<open>n\<close> ticks is Playing for \<open>n = 0\<close> and
  \<open>GAME_OVER\<close> for every other \<open>n\<close>: the phase changes at the first tick and at no other.
\<close>

theorem tick_countdown:
  "(\<exists>s'. gameReducer rd w s TICK = Some (Inr (s', w))
      \<and> timeRemaining s' = max 0 (timeRemaining s - 1)
      \<and> 0 \<le> timeRemaining s'
      \<and> (timeRemaining s' = 0 \<longrightarrow> gameState s' = GAME_OVER))
   \<and> (timeRemaining s = 1 \<and> gameState s = PLAYING \<longrightarrow>
        (\<forall>n. \<exists>s'. dispatch_all rd w s (replicate n TICK) = Some (Inr (s', w))
           \<and> 0 \<le> timeRemaining s'
           \<and> gameState s' = (if n = 0 then PLAYING else GAME_OVER))
        \<and> (\<forall>n. (phase_after_ticks rd w s (Suc n) \<noteq> phase_after_ticks rd w s n) = (n = 0)))"
proof (intro conjI impI allI)
  show "\<exists>s'. gameReducer rd w s TICK = Some (Inr (s', w))
      \<and> timeRemaining s' = max 0 (timeRemaining s - 1)
      \<and> 0 \<le> timeRemaining s'
      \<and> (timeRemaining s' = 0 \<longrightarrow> gameState s' = GAME_OVER)"
    by (simp add: Let_def)
next
  fix n
  assume a: "timeRemaining s = 1 \<and> gameState s = PLAYING"
  show "\<exists>s'. dispatch_all rd w s (replicate n TICK) = Some (Inr (s', w))
           \<and> 0 \<le> timeRemaining s'
           \<and> gameState s' = (if n = 0 then PLAYING else GAME_OVER)"
  proof (cases n)
    case 0
    then show ?thesis using a by simp
  next
    case (Suc m)
    then show ?thesis using a ticks_from_one [of s rd w m] by simp
  qed
next
  fix n
  assume a: "timeRemaining s = 1 \<and> gameState s = PLAYING"
  have later: "phase_after_ticks rd w s (Suc m) = Some GAME_OVER" for m
    using a ticks_from_one [of s rd w m] by (simp add: phase_after_ticks_def)
  have first: "phase_after_ticks rd w s 0 = Some PLAYING"
    using a by (simp add: phase_after_ticks_def)
  show "(phase_after_ticks rd w s (Suc n) \<noteq> phase_after_ticks rd w s n) = (n = 0)"
  proof (cases n)
    case 0
    then show ?thesis using later [of 0] first by simp
  next
    case (Suc m)
    then show ?thesis using later [of m] later [of "Suc m"] by simp
  qed
qed

theorem tick_countdown_witness:
  "timeRemaining (INITIAL_STATE\<lparr>timeRemaining := 1, gameState := PLAYING\<rparr>) = 1
   \<and> gameState (INITIAL_STATE\<lparr>timeRemaining := 1, gameState := PLAYING\<rparr>) = PLAYING
   \<and> dispatch_all Fin demo_world (INITIAL_STATE\<lparr>timeRemaining := 1, gameState := PLAYING\<rparr>)
        [TICK, TICK, TICK]
      = Some (Inr (INITIAL_STATE\<lparr>timeRemaining := 0, gameState := GAME_OVER\<rparr>, demo_world))
   \<and> phase_after_ticks Fin demo_world (INITIAL_STATE\<lparr>timeRemaining := 1, gameState := PLAYING\<rparr>) 1
      \<noteq> phase_after_ticks Fin demo_world (INITIAL_STATE\<lparr>timeRemaining := 1, gameState := PLAYING\<rparr>) 0"
  using tick_countdown [of Fin demo_world "INITIAL_STATE\<lparr>timeRemaining := 1, gameState := PLAYING\<rparr>"]
  by (simp add: INITIAL_STATE_def phase_after_ticks_def)

text \<open>
  C7.  In every state, whatever its phase, \<open>RETURN_TO_MENU\<close> gives the phase Menu and
  the initial values of \<open>score\<close>, \<open>timeRemaining\<close>, \<open>userInput\<close>, \<open>currentProblem\<close>,
  \<open>showSuccess\<close> and \<open>playerNameToSave\<close>; \<open>topScores\<close> is what \<open>getTopScores\<close> reads from the
  storage at that moment.
\<close>

theorem return_to_menu_resets:
  "\<exists>s'. gameReducer rd w state RETURN_TO_MENU = Some (Inr (s', w))
     \<and> gameState s' = MENU
     \<and> score s' = score INITIAL_STATE \<and> score s' = 0
     \<and> timeRemaining s' = timeRemaining INITIAL_STATE \<and> timeRemaining s' = 30
     \<and> userInput s' = userInput INITIAL_STATE \<and> userInput s' = []
     \<and> currentProblem s' = currentProblem INITIAL_STATE \<and> currentProblem s' = None
     \<and> showSuccess s' = showSuccess INITIAL_STATE
     \<and> playerNameToSave s' = playerNameToSave INITIAL_STATE
     \<and> topScores s' = getTopScores (storage w) 5"
  by (simp add: INITIAL_STATE_def)

section \<open>The score store\<close>










text \<open>
  C5 as stated fails: with a corrupted stored value \<open>JSON.parse\<close> throws inside the one
  \<open>try\<close> block, the error is logged, and nothing is written.
\<close>

theorem saveScore_corrupted_counterexample:
  "item corrupted_storage = Some NotJson
   \<and> saveScore ''2024-02-01T09:00:00.000Z'' corrupted_storage ''ana'' 7
       = (corrupted_storage, Some SyntaxError)
   \<and> item (fst (saveScore ''2024-02-01T09:00:00.000Z'' corrupted_storage ''ana'' 7))
       \<noteq> Some (JsonText (JArray [\<lparr>name = ''ana'', score = 7, date = ''2024-02-01T09:00:00.000Z''\<rparr>]))"
  by (simp add: saveScore_def read_scores_def getItem_def corrupted_storage_def)

text \<open>
  C5, as amended.  \<open>saveScore\<close> returns in every case (every error is caught and
  logged).  When the storage can be read and written and the slot is absent, empty or
  holds a serialized array, that collection (empty for an absent or empty slot) with the
  new record of the given name, score and current timestamp appended is written back.
  When the storage cannot be read or written, or the stored value is corrupted, an error
  is logged and the storage is left as it was.
\<close>

theorem saveScore_appends_or_gives_up:
  "(readable ls \<and> writable ls \<and> or_empty_array (item ls) = JsonText (JArray xs)
     \<longrightarrow> saveScore now ls playerName sc
         = (ls\<lparr>item := Some (JsonText (JArray (xs @ [\<lparr>name = playerName, score = sc, date = now\<rparr>])))\<rparr>,
            None))
   \<and> (\<not> readable ls \<or> \<not> writable ls \<or> item ls = Some NotJson \<or> item ls = Some (JsonText JOther)
     \<longrightarrow> fst (saveScore now ls playerName sc) = ls
         \<and> snd (saveScore now ls playerName sc) \<noteq> None)"
proof (intro conjI impI)
  assume a: "readable ls \<and> writable ls \<and> or_empty_array (item ls) = JsonText (JArray xs)"
  then have "read_scores ls = Inr (JArray xs)"
    by (simp add: read_scores_def getItem_def)
  then show "saveScore now ls playerName sc
         = (ls\<lparr>item := Some (JsonText (JArray (xs @ [\<lparr>name = playerName, score = sc, date = now\<rparr>])))\<rparr>,
            None)"
    using a by (simp add: saveScore_def setItem_def JSON_stringify_def)
next
  assume a: "\<not> readable ls \<or> \<not> writable ls \<or> item ls = Some NotJson \<or> item ls = Some (JsonText JOther)"
  then show "fst (saveScore now ls playerName sc) = ls"
    by (auto simp: saveScore_def read_scores_def getItem_def setItem_def
          split: sum.splits)
next
  assume a: "\<not> readable ls \<or> \<not> writable ls \<or> item ls = Some NotJson \<or> item ls = Some (JsonText JOther)"
  then show "snd (saveScore now ls playerName sc) \<noteq> None"
    by (auto simp: saveScore_def read_scores_def getItem_def setItem_def
          split: sum.splits)
qed

theorem saveScore_appends_or_gives_up_witness:
  "readable demo_storage \<and> writable demo_storage
   \<and> or_empty_array (item demo_storage) = JsonText (JArray [])
   \<and> saveScore ''2024-02-01T09:00:00.000Z'' demo_storage ''ana'' 7
       = (demo_storage\<lparr>item := Some (JsonText (JArray
            [\<lparr>name = ''ana'', score = 7, date = ''2024-02-01T09:00:00.000Z''\<rparr>]))\<rparr>, None)
   \<and> item corrupted_storage = Some NotJson
   \<and> fst (saveScore ''2024-02-01T09:00:00.000Z'' corrupted_storage ''ana'' 7) = corrupted_storage
   \<and> snd (saveScore ''2024-02-01T09:00:00.000Z'' corrupted_storage ''ana'' 7) \<noteq> None"
proof -
  have h: "readable demo_storage \<and> writable demo_storage
           \<and> or_empty_array (item demo_storage) = JsonText (JArray [])"
    by (simp add: demo_storage_def)
  have c: "item corrupted_storage = Some NotJson"
    by (simp add: corrupted_storage_def)
  show ?thesis
    using h c
      saveScore_appends_or_gives_up [of demo_storage "[]" "''2024-02-01T09:00:00.000Z''" "''ana''" 7]
      saveScore_appends_or_gives_up [of corrupted_storage "[]" "''2024-02-01T09:00:00.000Z''" "''ana''" 7]
    by simp
qed

end
